theory Spec2Isabelle
  imports Complex_Main
begin

section \<open>The schedule manager of official/transformer/utils/schedule.py\<close>

text \<open>
  The class \<open>Manager\<close> is embedded as a record of its attributes, its constructor as a
  function into a sum type whose left summand holds the Python exception raised, and its
  properties and methods as functions of the record. Python's unbounded integers are
  \<open>int\<close>; Python's \<open>//\<close> and \<open>%\<close> round towards minus infinity, as \<open>div\<close> and
  \<open>mod\<close> on \<open>int\<close> do, and raise ZeroDivisionError on a zero divisor, which is written
  out in \<open>floordiv\<close> and \<open>pymod\<close>.
\<close>

subsection \<open>Exceptions and Python primitives\<close>

datatype error =
    ValueError string
  | AssertionError string
  | ZeroDivisionError
  | OverflowError
  | TypeError

text \<open>The estimator mode keys \<open>_TRAIN\<close> and \<open>_EVAL\<close>.\<close>

datatype mode = TRAIN | EVAL

text \<open>Truthiness of a nullable integer: \<open>None\<close> and \<open>0\<close> are false.\<close>

fun truthy :: "int option \<Rightarrow> bool" where
  "truthy None = False"
| "truthy (Some n) = (n \<noteq> 0)"

definition floordiv :: "int \<Rightarrow> int \<Rightarrow> error + int" where
  "floordiv a b = (if b = 0 then Inl ZeroDivisionError else Inr (a div b))"

definition pymod :: "int \<Rightarrow> int \<Rightarrow> error + int" where
  "pymod a b = (if b = 0 then Inl ZeroDivisionError else Inr (a mod b))"

text \<open>Sequencing of a computation that may raise.\<close>

fun bind :: "error + 'a \<Rightarrow> ('a \<Rightarrow> error + 'b) \<Rightarrow> error + 'b" where
  "bind (Inl e) f = Inl e"
| "bind (Inr x) f = f x"

text \<open>\<open>str\<close> of an integer, as \<open>"{}".format\<close> prints it: decimal digits, a leading minus
  sign for a negative number.\<close>

definition digit_char :: "nat \<Rightarrow> char" where
  "digit_char d = ''0123456789'' ! d"

fun str_nat :: "nat \<Rightarrow> string" where
  "str_nat n = (if n < 10 then [digit_char n] else str_nat (n div 10) @ [digit_char (n mod 10)])"

definition str_int :: "int \<Rightarrow> string" where
  "str_int i = (if i < 0 then CHR ''-'' # str_nat (nat (- i)) else str_nat (nat i))"

subsection \<open>The manager and its constructor\<close>

text \<open>The attributes \<open>_single_iteration_train_steps\<close> and \<open>_single_iteration_train_epochs\<close>
  carry the prefix \<open>priv\<close> here, since a name cannot start with an underscore and the
  properties of the same names are functions below.\<close>

record manager =
  train_eval_iterations :: int
  priv_single_iteration_train_steps :: "int option"
  priv_single_iteration_train_epochs :: "int option"
  max_length :: int
  batch_size :: int
  use_tpu :: bool
  num_tpu_shards :: int

text \<open>The arguments of \<open>__init__\<close>; \<open>train_steps\<close> and \<open>train_epochs\<close> may be \<open>None\<close>.\<close>

record init_args =
  arg_train_steps :: "int option"
  arg_steps_between_evals :: int
  arg_train_epochs :: "int option"
  arg_epochs_between_evals :: int
  arg_default_train_epochs :: int
  arg_batch_size :: int
  arg_max_length :: int
  arg_use_tpu :: bool
  arg_num_tpu_shards :: int

text \<open>\<open>train_epochs or default_train_epochs\<close>.\<close>

definition or_default :: "int option \<Rightarrow> int \<Rightarrow> int" where
  "or_default x d = (case x of None \<Rightarrow> d | Some n \<Rightarrow> if n \<noteq> 0 then n else d)"

definition init :: "init_args \<Rightarrow> error + manager" where
  "init a =
    (if truthy (arg_train_steps a) \<and> truthy (arg_train_epochs a)
     then Inl (ValueError ''Both train_steps or train_epochs were be defined.'')
     else
       bind (case arg_train_steps a of
               Some train_steps \<Rightarrow>
                 if train_steps \<noteq> 0
                 then bind (floordiv train_steps (arg_steps_between_evals a))
                        (\<lambda>its. Inr (its, Some (arg_steps_between_evals a), None))
                 else bind (floordiv (or_default (arg_train_epochs a) (arg_default_train_epochs a))
                                     (arg_epochs_between_evals a))
                        (\<lambda>its. Inr (its, None, Some (arg_epochs_between_evals a)))
             | None \<Rightarrow>
                 bind (floordiv (or_default (arg_train_epochs a) (arg_default_train_epochs a))
                                (arg_epochs_between_evals a))
                   (\<lambda>its. Inr (its, None, Some (arg_epochs_between_evals a))))
         (\<lambda>(its, steps, epochs).
            let self = \<lparr> train_eval_iterations = its,
                         priv_single_iteration_train_steps = steps,
                         priv_single_iteration_train_epochs = epochs,
                         max_length = arg_max_length a,
                         batch_size = arg_batch_size a,
                         use_tpu = arg_use_tpu a,
                         num_tpu_shards = arg_num_tpu_shards a \<rparr>
            in if use_tpu self
               then bind (floordiv (batch_size self) (max_length self))
                      (\<lambda>q. bind (pymod q (num_tpu_shards self))
                        (\<lambda>r. if r = 0 then Inr self else Inl (AssertionError [])))
               else Inr self))"

subsection \<open>Properties and methods\<close>

text \<open>The table \<open>dataset.NUM_EXAMPLES\<close> lives in a module that is not part of the sources at
  hand; it is a parameter \<open>num_examples\<close> of every function that reads it, a number of
  examples for each mode.\<close>

type_synonym example_table = "mode \<Rightarrow> nat"

definition epochs_to_steps :: "example_table \<Rightarrow> manager \<Rightarrow> int \<Rightarrow> mode \<Rightarrow> error + int" where
  "epochs_to_steps num_examples self num_epochs md =
    (if \<not> use_tpu self
     then Inl (AssertionError ''epochs_to_steps should only be reached when using TPU'')
     else let total_num_tokens = int (num_examples md) * max_length self * num_epochs
          in floordiv total_num_tokens (batch_size self))"

text \<open>The property \<open>single_iteration_train_steps\<close>. Its last branch passes the stored
  epoch count to \<open>epochs_to_steps\<close>; a stored \<open>None\<close> there makes the product of
  line 122 raise TypeError.\<close>

definition single_iteration_train_steps :: "example_table \<Rightarrow> manager \<Rightarrow> error + int option" where
  "single_iteration_train_steps num_examples self =
    (if truthy (priv_single_iteration_train_steps self) \<or> \<not> use_tpu self
     then Inr (priv_single_iteration_train_steps self)
     else case priv_single_iteration_train_epochs self of
            None \<Rightarrow> Inl TypeError
          | Some num_epochs \<Rightarrow>
              bind (epochs_to_steps num_examples self num_epochs TRAIN) (\<lambda>n. Inr (Some n)))"

definition single_iteration_eval_steps :: "example_table \<Rightarrow> manager \<Rightarrow> error + int option" where
  "single_iteration_eval_steps num_examples self =
    (if \<not> use_tpu self then Inr None
     else bind (epochs_to_steps num_examples self 1 EVAL) (\<lambda>n. Inr (Some n)))"

text \<open>\<open>"{}".format\<close> of a nullable integer.\<close>

definition str_opt :: "int option \<Rightarrow> string" where
  "str_opt x = (case x of None \<Rightarrow> ''None'' | Some i \<Rightarrow> str_int i)"

definition train_increment_str :: "example_table \<Rightarrow> manager \<Rightarrow> error + string" where
  "train_increment_str num_examples self =
    (if truthy (priv_single_iteration_train_steps self)
     then Inr (str_opt (priv_single_iteration_train_steps self) @ '' steps.'')
     else if \<not> use_tpu self
     then Inr (str_opt (priv_single_iteration_train_epochs self) @ '' epochs.'')
     else bind (single_iteration_train_steps num_examples self)
            (\<lambda>steps. Inr (''~'' @ str_opt (priv_single_iteration_train_epochs self)
                            @ '' epochs. ('' @ str_opt steps @ '' steps)'')))"

subsection \<open>True division and \<open>math.ceil\<close>\<close>








subsection \<open>The hooks after training and evaluation\<close>

text \<open>What a hook does to the outside world, in order.\<close>

datatype effect = LogInfo string | Sleep nat

definition sleep_if_tpu :: "manager \<Rightarrow> effect list" where
  "sleep_if_tpu self =
    (if use_tpu self then [LogInfo ''Sleeping to allow TPU queues to clear.'', Sleep 60] else [])"

definition post_train :: "manager \<Rightarrow> effect list" where
  "post_train self = sleep_if_tpu self"

definition post_eval :: "manager \<Rightarrow> effect list" where
  "post_eval self = sleep_if_tpu self"

subsection \<open>Vocabulary for the properties\<close>

text \<open>The tests of lines 47 and 51 on the constructor's arguments, the total and the cadence
  that line 52 or line 57 divides, and a table of example counts that is the same for both
  modes, for the examples.\<close>

definition both_supplied :: "init_args \<Rightarrow> bool" where
  "both_supplied a = (truthy (arg_train_steps a) \<and> truthy (arg_train_epochs a))"

definition steps_basis :: "init_args \<Rightarrow> bool" where
  "steps_basis a = truthy (arg_train_steps a)"

definition total :: "init_args \<Rightarrow> int" where
  "total a = (case arg_train_steps a of
                Some n \<Rightarrow> if n \<noteq> 0 then n
                          else or_default (arg_train_epochs a) (arg_default_train_epochs a)
              | None \<Rightarrow> or_default (arg_train_epochs a) (arg_default_train_epochs a))"

definition cadence :: "init_args \<Rightarrow> int" where
  "cadence a = (if steps_basis a then arg_steps_between_evals a else arg_epochs_between_evals a)"

definition const_table :: "nat \<Rightarrow> example_table" where
  "const_table n md = n"

text \<open>Sample arguments: 1000 steps, evaluation every 300 steps, batches of 2048 tokens,
  sequences of 64 tokens, 8 shards, on a TPU.\<close>

definition sample_args :: init_args where
  "sample_args =
    \<lparr> arg_train_steps = Some 1000, arg_steps_between_evals = 300,
      arg_train_epochs = None, arg_epochs_between_evals = 2,
      arg_default_train_epochs = 10, arg_batch_size = 2048, arg_max_length = 64,
      arg_use_tpu = True, arg_num_tpu_shards = 8 \<rparr>"

text \<open>The invalid configuration of the specification is the ValueError of line 48 or the
  failed assertion of line 67.\<close>

definition InvalidConfiguration :: "error \<Rightarrow> bool" where
  "InvalidConfiguration e =
    (e = ValueError ''Both train_steps or train_epochs were be defined.'' \<or> e = AssertionError [])"

text \<open>What a caller can do with a manager. No body of a property or of a method assigns to
  an attribute of \<open>self\<close>, so the manager after any of them is the manager before it.\<close>

datatype operation =
    Read_single_iteration_train_steps
  | Read_single_iteration_eval_steps
  | Read_train_increment_str
  | Read_repeat_dataset
  | Call_epochs_to_steps int mode
  | Call_post_train
  | Call_post_eval

fun after :: "operation \<Rightarrow> manager \<Rightarrow> manager" where
  "after Read_single_iteration_train_steps self = self"
| "after Read_single_iteration_eval_steps self = self"
| "after Read_train_increment_str self = self"
| "after Read_repeat_dataset self = self"
| "after (Call_epochs_to_steps num_epochs md) self = self"
| "after Call_post_train self = self"
| "after Call_post_eval self = self"

fun after_all :: "operation list \<Rightarrow> manager \<Rightarrow> manager" where
  "after_all [] self = self"
| "after_all (op # ops) self = after_all ops (after op self)"

text \<open>The recursive equations of \<open>str_nat\<close> and \<open>bit_length\<close> are unfolded on demand only.\<close>

declare str_nat.simps [simp del]


section \<open>Properties\<close>

subsection \<open>The constructor, branch by branch\<close>

lemma bind_Inr_iff:
  "bind x f = Inr y \<longleftrightarrow> (\<exists>v. x = Inr v \<and> f v = Inr y)"
  by (cases x) simp_all

lemma init_both: "both_supplied a \<Longrightarrow>
    init a = Inl (ValueError ''Both train_steps or train_epochs were be defined.'')"
  by (simp add: init_def both_supplied_def)

lemma init_zero_cadence:
  "\<not> both_supplied a \<Longrightarrow> cadence a = 0 \<Longrightarrow> init a = Inl ZeroDivisionError"
  by (cases "arg_train_steps a")
     (auto simp add: init_def both_supplied_def cadence_def steps_basis_def floordiv_def
        split: if_splits)

lemma init_reaches_check:
  assumes "\<not> both_supplied a" and "cadence a \<noteq> 0"
  shows "init a =
    (let self = \<lparr> train_eval_iterations = total a div cadence a,
                   priv_single_iteration_train_steps =
                     (if steps_basis a then Some (arg_steps_between_evals a) else None),
                   priv_single_iteration_train_epochs =
                     (if steps_basis a then None else Some (arg_epochs_between_evals a)),
                   max_length = arg_max_length a,
                   batch_size = arg_batch_size a,
                   use_tpu = arg_use_tpu a,
                   num_tpu_shards = arg_num_tpu_shards a \<rparr>
     in if arg_use_tpu a
        then if arg_max_length a = 0 \<or> arg_num_tpu_shards a = 0 then Inl ZeroDivisionError
             else if (arg_batch_size a div arg_max_length a) mod arg_num_tpu_shards a = 0
             then Inr self else Inl (AssertionError [])
        else Inr self)"
  using assms
  by (cases "arg_train_steps a")
     (auto simp add: init_def both_supplied_def cadence_def steps_basis_def total_def
        floordiv_def pymod_def Let_def split: if_splits)

lemma init_Inr_D:
  assumes "init a = Inr m"
  shows "\<not> both_supplied a" and "cadence a \<noteq> 0"
    and "train_eval_iterations m = total a div cadence a"
    and "priv_single_iteration_train_steps m =
           (if steps_basis a then Some (arg_steps_between_evals a) else None)"
    and "priv_single_iteration_train_epochs m =
           (if steps_basis a then None else Some (arg_epochs_between_evals a))"
    and "max_length m = arg_max_length a" and "batch_size m = arg_batch_size a"
    and "use_tpu m = arg_use_tpu a" and "num_tpu_shards m = arg_num_tpu_shards a"
    and "arg_use_tpu a \<Longrightarrow> arg_max_length a \<noteq> 0 \<and> arg_num_tpu_shards a \<noteq> 0 \<and>
           (arg_batch_size a div arg_max_length a) mod arg_num_tpu_shards a = 0"
proof -
  show nb: "\<not> both_supplied a"
    using assms init_both [of a] by auto
  show nz: "cadence a \<noteq> 0"
    using assms nb init_zero_cadence [of a] by auto
  note r = init_reaches_check [OF nb nz]
  show "train_eval_iterations m = total a div cadence a"
    using assms unfolding r by (auto simp: Let_def split: if_splits)
  show "priv_single_iteration_train_steps m =
           (if steps_basis a then Some (arg_steps_between_evals a) else None)"
    using assms unfolding r by (auto simp: Let_def split: if_splits)
  show "priv_single_iteration_train_epochs m =
           (if steps_basis a then None else Some (arg_epochs_between_evals a))"
    using assms unfolding r by (auto simp: Let_def split: if_splits)
  show "max_length m = arg_max_length a"
    using assms unfolding r by (auto simp: Let_def split: if_splits)
  show "batch_size m = arg_batch_size a"
    using assms unfolding r by (auto simp: Let_def split: if_splits)
  show "use_tpu m = arg_use_tpu a"
    using assms unfolding r by (auto simp: Let_def split: if_splits)
  show "num_tpu_shards m = arg_num_tpu_shards a"
    using assms unfolding r by (auto simp: Let_def split: if_splits)
  show "arg_max_length a \<noteq> 0 \<and> arg_num_tpu_shards a \<noteq> 0 \<and>
           (arg_batch_size a div arg_max_length a) mod arg_num_tpu_shards a = 0"
    if "arg_use_tpu a"
    using assms that unfolding r by (auto simp: Let_def split: if_splits)
qed


subsection \<open>Epochs to steps\<close>

lemma sample_init:
  "init sample_args =
     Inr \<lparr> train_eval_iterations = 3,
           priv_single_iteration_train_steps = Some 300,
           priv_single_iteration_train_epochs = None,
           max_length = 64, batch_size = 2048, use_tpu = True, num_tpu_shards = 8 \<rparr>"
  by (simp add: init_def sample_args_def floordiv_def pymod_def)

text \<open>
  Claim C1, as stated, fails: the sample arguments with a batch size of 0 construct a
  manager on a TPU (the check of line 67 passes, since \<open>0 // 64 = 0\<close> and \<open>0 % 8 = 0\<close>), and
  on it \<open>epochs_to_steps\<close> returns no number of steps: the division of line 123 raises
  ZeroDivisionError.
\<close>

theorem epochs_to_steps_floor_counterexample:
  "init (sample_args \<lparr> arg_batch_size := 0 \<rparr>) =
     Inr \<lparr> train_eval_iterations = 3,
           priv_single_iteration_train_steps = Some 300,
           priv_single_iteration_train_epochs = None,
           max_length = 64, batch_size = 0, use_tpu = True, num_tpu_shards = 8 \<rparr>
   \<and> use_tpu
       \<lparr> train_eval_iterations = 3,
         priv_single_iteration_train_steps = Some 300,
         priv_single_iteration_train_epochs = None,
         max_length = 64, batch_size = 0, use_tpu = True, num_tpu_shards = 8 \<rparr>
   \<and> epochs_to_steps (const_table 100000)
       \<lparr> train_eval_iterations = 3,
         priv_single_iteration_train_steps = Some 300,
         priv_single_iteration_train_epochs = None,
         max_length = 64, batch_size = 0, use_tpu = True, num_tpu_shards = 8 \<rparr> 1 TRAIN
       = Inl ZeroDivisionError"
  by (simp add: init_def sample_args_def floordiv_def pymod_def epochs_to_steps_def)

text \<open>
  Claim C1, amended. On a manager that uses a TPU (accelerator mode FIXED_STEP) and whose
  batch size is not zero, \<open>epochs_to_steps\<close> returns the number of examples of the mode
  times the sequence length times the number of epochs, divided by the batch size and
  rounded down: the floor of the exact quotient. On a manager that uses a TPU and whose
  batch size is zero it raises ZeroDivisionError. On a manager that does not use a TPU
  (accelerator mode NONE), every call fails the assertion of line 121, the precondition
  violation of the specification.
\<close>

theorem epochs_to_steps_floor:
  "(use_tpu self \<and> batch_size self \<noteq> 0 \<longrightarrow>
      epochs_to_steps num_examples self num_epochs md =
        Inr \<lfloor>real_of_int (int (num_examples md) * max_length self * num_epochs)
              / real_of_int (batch_size self)\<rfloor>)
   \<and> (use_tpu self \<and> batch_size self = 0 \<longrightarrow>
      epochs_to_steps num_examples self num_epochs md = Inl ZeroDivisionError)
   \<and> (\<not> use_tpu self \<longrightarrow>
      epochs_to_steps num_examples self num_epochs md =
        Inl (AssertionError ''epochs_to_steps should only be reached when using TPU''))"
  unfolding epochs_to_steps_def floordiv_def Let_def floor_divide_of_int_eq
  by simp

theorem epochs_to_steps_floor_witness:
  "epochs_to_steps (const_table 100000)
     \<lparr> train_eval_iterations = 3,
       priv_single_iteration_train_steps = Some 300,
       priv_single_iteration_train_epochs = None,
       max_length = 64, batch_size = 2048, use_tpu = True, num_tpu_shards = 8 \<rparr> 1 TRAIN
     = Inr 3125
   \<and> epochs_to_steps (const_table 100000)
     \<lparr> train_eval_iterations = 3,
       priv_single_iteration_train_steps = Some 300,
       priv_single_iteration_train_epochs = None,
       max_length = 64, batch_size = 2048, use_tpu = False, num_tpu_shards = 8 \<rparr> 1 TRAIN
     = Inl (AssertionError ''epochs_to_steps should only be reached when using TPU'')"
  using epochs_to_steps_floor [of
      "\<lparr> train_eval_iterations = 3,
         priv_single_iteration_train_steps = Some 300,
         priv_single_iteration_train_epochs = None,
         max_length = 64, batch_size = 2048, use_tpu = True, num_tpu_shards = 8 \<rparr>"
      "const_table 100000" 1 TRAIN]
    epochs_to_steps_floor [of
      "\<lparr> train_eval_iterations = 3,
         priv_single_iteration_train_steps = Some 300,
         priv_single_iteration_train_epochs = None,
         max_length = 64, batch_size = 2048, use_tpu = False, num_tpu_shards = 8 \<rparr>"
      "const_table 100000" 1 TRAIN]
  by (simp add: const_table_def)

subsection \<open>The number of iterations\<close>



subsection \<open>Both totals given\<close>

text \<open>
  Claim C3. When \<open>train_steps\<close> and \<open>train_epochs\<close> are both given (neither \<open>None\<close> nor
  zero), the construction fails with the ValueError of line 48, the invalid configuration
  of the specification, whatever the other arguments are.
\<close>

theorem init_both_supplied_fails:
  assumes "truthy (arg_train_steps a)" and "truthy (arg_train_epochs a)"
  shows "init a = Inl (ValueError ''Both train_steps or train_epochs were be defined.'')"
  using assms by (simp add: init_def)

theorem init_both_supplied_fails_witness:
  "truthy (arg_train_steps (sample_args \<lparr> arg_train_epochs := Some 5 \<rparr>))
   \<and> truthy (arg_train_epochs (sample_args \<lparr> arg_train_epochs := Some 5 \<rparr>))
   \<and> init (sample_args \<lparr> arg_train_epochs := Some 5 \<rparr>)
       = Inl (ValueError ''Both train_steps or train_epochs were be defined.'')"
proof -
  have s: "truthy (arg_train_steps (sample_args \<lparr> arg_train_epochs := Some 5 \<rparr>))"
    by (simp add: sample_args_def)
  have e: "truthy (arg_train_epochs (sample_args \<lparr> arg_train_epochs := Some 5 \<rparr>))"
    by (simp add: sample_args_def)
  show ?thesis
    using s e init_both_supplied_fails [OF s e] by simp
qed

subsection \<open>The shard check\<close>

text \<open>
  Claim C4, as stated, fails: on a TPU, with 1000 steps, an evaluation every 0 steps,
  batches of 2048, sequences of 64 and 7 shards, the shard condition is false and the
  construction fails, but with the ZeroDivisionError of line 52, which is raised before
  the check of line 67 is reached and is not an invalid configuration.
\<close>

theorem init_shard_check_counterexample:
  "arg_use_tpu (sample_args \<lparr> arg_steps_between_evals := 0, arg_num_tpu_shards := 7 \<rparr>)
   \<and> (arg_batch_size (sample_args \<lparr> arg_steps_between_evals := 0, arg_num_tpu_shards := 7 \<rparr>)
        div arg_max_length (sample_args \<lparr> arg_steps_between_evals := 0, arg_num_tpu_shards := 7 \<rparr>))
       mod arg_num_tpu_shards (sample_args \<lparr> arg_steps_between_evals := 0, arg_num_tpu_shards := 7 \<rparr>)
       \<noteq> 0
   \<and> init (sample_args \<lparr> arg_steps_between_evals := 0, arg_num_tpu_shards := 7 \<rparr>)
       = Inl ZeroDivisionError
   \<and> \<not> InvalidConfiguration ZeroDivisionError"
  by (simp add: init_def sample_args_def floordiv_def InvalidConfiguration_def)

text \<open>
  Claim C4, amended. On a TPU (accelerator mode FIXED_STEP), when both totals are given
  or the cadence of the chosen basis is not zero, and the sequence length and the number
  of shards are not zero (so that the condition is defined), the construction fails with
  an invalid configuration unless \<open>(batch_size // max_length) % num_tpu_shards = 0\<close>, and
  when the check of line 67 is reached and the condition holds it succeeds; every
  successful construction on a TPU satisfies the condition. Batches of 2048, sequences of
  64 and 8 shards succeed, 7 shards fail. Without a TPU (accelerator mode NONE) the
  condition is never checked: the construction succeeds whenever the totals and the
  cadence allow it, and never fails the assertion.
\<close>

theorem init_shard_check:
  "(arg_use_tpu a \<and> (both_supplied a \<or> cadence a \<noteq> 0)
      \<and> arg_max_length a \<noteq> 0 \<and> arg_num_tpu_shards a \<noteq> 0
      \<and> (arg_batch_size a div arg_max_length a) mod arg_num_tpu_shards a \<noteq> 0
     \<longrightarrow> (\<exists>e. init a = Inl e \<and> InvalidConfiguration e))
   \<and> (arg_use_tpu a \<and> \<not> both_supplied a \<and> cadence a \<noteq> 0
      \<and> arg_max_length a \<noteq> 0 \<and> arg_num_tpu_shards a \<noteq> 0
     \<longrightarrow> ((arg_batch_size a div arg_max_length a) mod arg_num_tpu_shards a = 0
            \<longrightarrow> (\<exists>m. init a = Inr m))
        \<and> ((arg_batch_size a div arg_max_length a) mod arg_num_tpu_shards a \<noteq> 0
            \<longrightarrow> init a = Inl (AssertionError [])))
   \<and> (arg_use_tpu a \<longrightarrow> (\<forall>m. init a = Inr m \<longrightarrow>
          arg_max_length a \<noteq> 0 \<and> arg_num_tpu_shards a \<noteq> 0 \<and>
          (arg_batch_size a div arg_max_length a) mod arg_num_tpu_shards a = 0))
   \<and> (\<not> arg_use_tpu a \<and> \<not> both_supplied a \<and> cadence a \<noteq> 0 \<longrightarrow> (\<exists>m. init a = Inr m))
   \<and> (\<not> arg_use_tpu a \<longrightarrow> init a \<noteq> Inl (AssertionError []))"
proof -
  have c1: "\<exists>e. init a = Inl e \<and> InvalidConfiguration e"
    if h: "arg_use_tpu a \<and> (both_supplied a \<or> cadence a \<noteq> 0)
      \<and> arg_max_length a \<noteq> 0 \<and> arg_num_tpu_shards a \<noteq> 0
      \<and> (arg_batch_size a div arg_max_length a) mod arg_num_tpu_shards a \<noteq> 0"
  proof (cases "both_supplied a")
    case True
    then show ?thesis
      by (simp add: init_both InvalidConfiguration_def)
  next
    case False
    with h have "cadence a \<noteq> 0" by simp
    from init_reaches_check [OF False this] h show ?thesis
      by (simp add: Let_def InvalidConfiguration_def)
  qed
  have c2: "((arg_batch_size a div arg_max_length a) mod arg_num_tpu_shards a = 0
            \<longrightarrow> (\<exists>m. init a = Inr m))
        \<and> ((arg_batch_size a div arg_max_length a) mod arg_num_tpu_shards a \<noteq> 0
            \<longrightarrow> init a = Inl (AssertionError []))"
    if h: "arg_use_tpu a \<and> \<not> both_supplied a \<and> cadence a \<noteq> 0
      \<and> arg_max_length a \<noteq> 0 \<and> arg_num_tpu_shards a \<noteq> 0"
  proof -
    from h have "\<not> both_supplied a" and "cadence a \<noteq> 0" by simp_all
    from init_reaches_check [OF this] h show ?thesis
      by (simp add: Let_def)
  qed
  have c3: "arg_max_length a \<noteq> 0 \<and> arg_num_tpu_shards a \<noteq> 0 \<and>
          (arg_batch_size a div arg_max_length a) mod arg_num_tpu_shards a = 0"
    if "arg_use_tpu a" and "init a = Inr m" for m
    using init_Inr_D(10) [OF that(2) that(1)] .
  have c4: "\<exists>m. init a = Inr m"
    if h: "\<not> arg_use_tpu a \<and> \<not> both_supplied a \<and> cadence a \<noteq> 0"
  proof -
    from h have "\<not> both_supplied a" and "cadence a \<noteq> 0" by simp_all
    from init_reaches_check [OF this] h show ?thesis
      by (simp add: Let_def)
  qed
  have c5: "init a \<noteq> Inl (AssertionError [])" if h: "\<not> arg_use_tpu a"
  proof (cases "both_supplied a")
    case True
    then show ?thesis by (simp add: init_both)
  next
    case nb: False
    show ?thesis
    proof (cases "cadence a = 0")
      case True
      with nb show ?thesis by (simp add: init_zero_cadence)
    next
      case False
      from init_reaches_check [OF nb False] h show ?thesis
        by (simp add: Let_def)
    qed
  qed
  from c1 c2 c3 c4 c5 show ?thesis by blast
qed

lemma sample_seven_shards:
  "arg_use_tpu (sample_args \<lparr> arg_num_tpu_shards := 7 \<rparr>)"
  "\<not> both_supplied (sample_args \<lparr> arg_num_tpu_shards := 7 \<rparr>)"
  "cadence (sample_args \<lparr> arg_num_tpu_shards := 7 \<rparr>) \<noteq> 0"
  "arg_max_length (sample_args \<lparr> arg_num_tpu_shards := 7 \<rparr>) \<noteq> 0"
  "arg_num_tpu_shards (sample_args \<lparr> arg_num_tpu_shards := 7 \<rparr>) \<noteq> 0"
  "(arg_batch_size (sample_args \<lparr> arg_num_tpu_shards := 7 \<rparr>)
      div arg_max_length (sample_args \<lparr> arg_num_tpu_shards := 7 \<rparr>))
     mod arg_num_tpu_shards (sample_args \<lparr> arg_num_tpu_shards := 7 \<rparr>) = 4"
  by (simp_all add: sample_args_def both_supplied_def cadence_def steps_basis_def)

lemma sample_eight_shards:
  "arg_use_tpu sample_args" "\<not> both_supplied sample_args" "cadence sample_args \<noteq> 0"
  "arg_max_length sample_args \<noteq> 0" "arg_num_tpu_shards sample_args \<noteq> 0"
  "(arg_batch_size sample_args div arg_max_length sample_args)
     mod arg_num_tpu_shards sample_args = 0"
  by (simp_all add: sample_args_def both_supplied_def cadence_def steps_basis_def)

theorem init_shard_check_witness:
  "arg_use_tpu sample_args
   \<and> \<not> both_supplied sample_args \<and> cadence sample_args \<noteq> 0
   \<and> (arg_batch_size sample_args div arg_max_length sample_args)
        mod arg_num_tpu_shards sample_args = 0
   \<and> (\<exists>m. init sample_args = Inr m)
   \<and> arg_use_tpu (sample_args \<lparr> arg_num_tpu_shards := 7 \<rparr>)
   \<and> (arg_batch_size (sample_args \<lparr> arg_num_tpu_shards := 7 \<rparr>)
        div arg_max_length (sample_args \<lparr> arg_num_tpu_shards := 7 \<rparr>))
       mod arg_num_tpu_shards (sample_args \<lparr> arg_num_tpu_shards := 7 \<rparr>) = 4
   \<and> init (sample_args \<lparr> arg_num_tpu_shards := 7 \<rparr>) = Inl (AssertionError [])
   \<and> InvalidConfiguration (AssertionError [])"
proof -
  have ok: "\<exists>m. init sample_args = Inr m"
    using init_shard_check [of sample_args] sample_eight_shards by blast
  have seven: "(arg_batch_size (sample_args \<lparr> arg_num_tpu_shards := 7 \<rparr>)
        div arg_max_length (sample_args \<lparr> arg_num_tpu_shards := 7 \<rparr>))
       mod arg_num_tpu_shards (sample_args \<lparr> arg_num_tpu_shards := 7 \<rparr>) \<noteq> 0"
    using sample_seven_shards(6) by simp
  have bad: "init (sample_args \<lparr> arg_num_tpu_shards := 7 \<rparr>) = Inl (AssertionError [])"
    using init_shard_check [of "sample_args \<lparr> arg_num_tpu_shards := 7 \<rparr>"]
      sample_seven_shards(1-5) seven by blast
  have inv: "InvalidConfiguration (AssertionError [])"
    by (simp add: InvalidConfiguration_def)
  from ok bad inv sample_eight_shards sample_seven_shards(1,6) show ?thesis
    by blast
qed


subsection \<open>The stored counts\<close>

text \<open>
  Claim C8. After every successful construction exactly one of the stored counts
  \<open>_single_iteration_train_steps\<close> and \<open>_single_iteration_train_epochs\<close> is not \<open>None\<close>,
  and it stays so for the lifetime of the manager: after any sequence of reads and calls
  the manager is the one that was constructed.
\<close>

theorem exactly_one_count:
  assumes "init a = Inr m"
  shows "(priv_single_iteration_train_steps m = None)
           \<noteq> (priv_single_iteration_train_epochs m = None)
       \<and> (\<forall>ops. after_all ops m = m
            \<and> (priv_single_iteration_train_steps (after_all ops m) = None)
                 \<noteq> (priv_single_iteration_train_epochs (after_all ops m) = None))"
proof -
  have one: "(priv_single_iteration_train_steps m = None)
           \<noteq> (priv_single_iteration_train_epochs m = None)"
    using init_Inr_D(4,5) [OF assms] by simp
  have same: "after op self = self" for op self
    by (cases op) simp_all
  have all: "after_all ops self = self" for ops self
    by (induction ops arbitrary: self) (simp_all add: same)
  from one all show ?thesis by simp
qed

theorem exactly_one_count_witness:
  "priv_single_iteration_train_steps
     \<lparr> train_eval_iterations = 3,
       priv_single_iteration_train_steps = Some 300,
       priv_single_iteration_train_epochs = None,
       max_length = 64, batch_size = 2048, use_tpu = True, num_tpu_shards = 8 \<rparr> \<noteq> None
   \<and> priv_single_iteration_train_epochs
     \<lparr> train_eval_iterations = 3,
       priv_single_iteration_train_steps = Some 300,
       priv_single_iteration_train_epochs = None,
       max_length = 64, batch_size = 2048, use_tpu = True, num_tpu_shards = 8 \<rparr> = None
   \<and> after_all [Read_train_increment_str, Call_post_train, Read_repeat_dataset, Call_post_eval]
     \<lparr> train_eval_iterations = 3,
       priv_single_iteration_train_steps = Some 300,
       priv_single_iteration_train_epochs = None,
       max_length = 64, batch_size = 2048, use_tpu = True, num_tpu_shards = 8 \<rparr>
     = \<lparr> train_eval_iterations = 3,
       priv_single_iteration_train_steps = Some 300,
       priv_single_iteration_train_epochs = None,
       max_length = 64, batch_size = 2048, use_tpu = True, num_tpu_shards = 8 \<rparr>"
  using exactly_one_count [OF sample_init] by simp

subsection \<open>A zero cadence\<close>

text \<open>
  Claim C10, as stated, fails: with \<open>train_steps = 1000\<close> and \<open>steps_between_evals = 0\<close>, a
  zero cadence in the steps basis, and \<open>train_epochs = 5\<close> given as well, the construction
  raises the ValueError of line 48, an invalid configuration, and not ZeroDivisionError:
  the test of line 47 comes before the division of line 52.
\<close>

theorem zero_cadence_counterexample:
  "truthy (arg_train_steps
      (sample_args \<lparr> arg_steps_between_evals := 0, arg_train_epochs := Some 5 \<rparr>))
   \<and> arg_steps_between_evals
      (sample_args \<lparr> arg_steps_between_evals := 0, arg_train_epochs := Some 5 \<rparr>) = 0
   \<and> init (sample_args \<lparr> arg_steps_between_evals := 0, arg_train_epochs := Some 5 \<rparr>)
       = Inl (ValueError ''Both train_steps or train_epochs were be defined.'')
   \<and> init (sample_args \<lparr> arg_steps_between_evals := 0, arg_train_epochs := Some 5 \<rparr>)
       \<noteq> Inl ZeroDivisionError
   \<and> InvalidConfiguration (ValueError ''Both train_steps or train_epochs were be defined.'')"
  by (simp add: init_def sample_args_def InvalidConfiguration_def)

text \<open>
  Claim C10, amended. A construction in which not both totals are given, with a zero
  cadence in the chosen basis, \<open>steps_between_evals = 0\<close> when \<open>train_steps\<close> is given and
  not zero and \<open>epochs_between_evals = 0\<close> otherwise, raises ZeroDivisionError, which is
  not an invalid configuration; when both totals are given the ValueError of line 48 is
  raised whatever the cadence is. So after every successful construction the stored count
  of the chosen basis is neither \<open>None\<close> nor zero and the other one is \<open>None\<close>, and the
  truth value of \<open>_single_iteration_train_steps\<close>, which the properties test, tells the
  steps basis from the epochs basis.
\<close>

theorem zero_cadence:
  "(\<not> both_supplied a \<and> cadence a = 0 \<longrightarrow>
      init a = Inl ZeroDivisionError \<and> \<not> InvalidConfiguration ZeroDivisionError)
   \<and> (both_supplied a \<longrightarrow>
      init a = Inl (ValueError ''Both train_steps or train_epochs were be defined.''))
   \<and> (\<forall>m. init a = Inr m \<longrightarrow>
        (steps_basis a \<longrightarrow>
           (\<exists>n. priv_single_iteration_train_steps m = Some n \<and> n \<noteq> 0) \<and>
           priv_single_iteration_train_epochs m = None) \<and>
        (\<not> steps_basis a \<longrightarrow>
           (\<exists>n. priv_single_iteration_train_epochs m = Some n \<and> n \<noteq> 0) \<and>
           priv_single_iteration_train_steps m = None) \<and>
        truthy (priv_single_iteration_train_steps m) = steps_basis a \<and>
        truthy (priv_single_iteration_train_steps m)
          = (priv_single_iteration_train_steps m \<noteq> None))"
proof -
  have z: "init a = Inl ZeroDivisionError \<and> \<not> InvalidConfiguration ZeroDivisionError"
    if "\<not> both_supplied a \<and> cadence a = 0"
    using that by (simp add: init_zero_cadence InvalidConfiguration_def)
  have s: "(steps_basis a \<longrightarrow>
           (\<exists>n. priv_single_iteration_train_steps m = Some n \<and> n \<noteq> 0) \<and>
           priv_single_iteration_train_epochs m = None) \<and>
        (\<not> steps_basis a \<longrightarrow>
           (\<exists>n. priv_single_iteration_train_epochs m = Some n \<and> n \<noteq> 0) \<and>
           priv_single_iteration_train_steps m = None) \<and>
        truthy (priv_single_iteration_train_steps m) = steps_basis a \<and>
        truthy (priv_single_iteration_train_steps m)
          = (priv_single_iteration_train_steps m \<noteq> None)"
    if "init a = Inr m" for m
    using init_Inr_D(2,4,5) [OF that] by (auto simp: cadence_def)
  from z s init_both [of a] show ?thesis by blast
qed

lemma sample_zero_cadence:
  "\<not> both_supplied (sample_args \<lparr> arg_steps_between_evals := 0 \<rparr>)"
  "cadence (sample_args \<lparr> arg_steps_between_evals := 0 \<rparr>) = 0"
  by (simp_all add: sample_args_def both_supplied_def cadence_def steps_basis_def)

lemma sample_steps_basis: "steps_basis sample_args"
  by (simp add: sample_args_def steps_basis_def)

theorem zero_cadence_witness:
  "\<not> both_supplied (sample_args \<lparr> arg_steps_between_evals := 0 \<rparr>)
   \<and> cadence (sample_args \<lparr> arg_steps_between_evals := 0 \<rparr>) = 0
   \<and> init (sample_args \<lparr> arg_steps_between_evals := 0 \<rparr>) = Inl ZeroDivisionError
   \<and> steps_basis sample_args
   \<and> truthy (priv_single_iteration_train_steps
        \<lparr> train_eval_iterations = 3,
          priv_single_iteration_train_steps = Some 300,
          priv_single_iteration_train_epochs = None,
          max_length = 64, batch_size = 2048, use_tpu = True, num_tpu_shards = 8 \<rparr>)"
proof -
  have z: "init (sample_args \<lparr> arg_steps_between_evals := 0 \<rparr>) = Inl ZeroDivisionError"
    using zero_cadence [of "sample_args \<lparr> arg_steps_between_evals := 0 \<rparr>"]
      sample_zero_cadence by blast
  have t: "truthy (priv_single_iteration_train_steps
        \<lparr> train_eval_iterations = 3,
          priv_single_iteration_train_steps = Some 300,
          priv_single_iteration_train_epochs = None,
          max_length = 64, batch_size = 2048, use_tpu = True, num_tpu_shards = 8 \<rparr>)"
    using zero_cadence [of sample_args] sample_init sample_steps_basis by blast
  from z t sample_zero_cadence sample_steps_basis show ?thesis by blast
qed


subsection \<open>Steps of one iteration\<close>

lemma sample_epochs_tpu_init:
  "init (sample_args \<lparr> arg_train_steps := None \<rparr>) =
     Inr \<lparr> train_eval_iterations = 5,
           priv_single_iteration_train_steps = None,
           priv_single_iteration_train_epochs = Some 2,
           max_length = 64, batch_size = 2048, use_tpu = True, num_tpu_shards = 8 \<rparr>"
  by (simp add: init_def sample_args_def floordiv_def pymod_def or_default_def)

lemma sample_epochs_init:
  "init (sample_args \<lparr> arg_train_steps := None, arg_use_tpu := False \<rparr>) =
     Inr \<lparr> train_eval_iterations = 5,
           priv_single_iteration_train_steps = None,
           priv_single_iteration_train_epochs = Some 2,
           max_length = 64, batch_size = 2048, use_tpu = False, num_tpu_shards = 8 \<rparr>"
  by (simp add: init_def sample_args_def floordiv_def pymod_def or_default_def)

lemma sample_epochs_basis:
  "\<not> steps_basis (sample_args \<lparr> arg_train_steps := None \<rparr>)"
  "\<not> steps_basis (sample_args \<lparr> arg_train_steps := None, arg_use_tpu := False \<rparr>)"
  "arg_epochs_between_evals (sample_args \<lparr> arg_train_steps := None \<rparr>) = 2"
  "arg_epochs_between_evals (sample_args \<lparr> arg_train_steps := None, arg_use_tpu := False \<rparr>) = 2"
  by (simp_all add: sample_args_def steps_basis_def)

text \<open>
  Claim C5. After a successful construction the property \<open>single_iteration_train_steps\<close>
  returns the stored step count, which is \<open>steps_between_evals\<close>, in the steps basis with
  or without a TPU; \<open>None\<close> in the epochs basis without a TPU; and in the epochs basis on
  a TPU whatever \<open>epochs_to_steps\<close> returns or raises for the stored epoch count, which is
  \<open>epochs_between_evals\<close>, in the mode TRAIN.
\<close>

theorem single_iteration_train_steps_cases:
  assumes "init a = Inr m"
  shows "(steps_basis a \<longrightarrow>
            priv_single_iteration_train_steps m = Some (arg_steps_between_evals a) \<and>
            single_iteration_train_steps num_examples m
              = Inr (priv_single_iteration_train_steps m))
       \<and> (\<not> steps_basis a \<and> \<not> use_tpu m \<longrightarrow>
            single_iteration_train_steps num_examples m = Inr None)
       \<and> (\<not> steps_basis a \<and> use_tpu m \<longrightarrow>
            priv_single_iteration_train_epochs m = Some (arg_epochs_between_evals a) \<and>
            single_iteration_train_steps num_examples m
              = bind (epochs_to_steps num_examples m (arg_epochs_between_evals a) TRAIN)
                  (\<lambda>steps. Inr (Some steps)))"
proof -
  note f = init_Inr_D(2,4,5) [OF assms]
  have s: "priv_single_iteration_train_steps m = Some (arg_steps_between_evals a) \<and>
      single_iteration_train_steps num_examples m = Inr (priv_single_iteration_train_steps m)"
    if "steps_basis a"
    using f that by (simp add: single_iteration_train_steps_def cadence_def)
  have e: "single_iteration_train_steps num_examples m = Inr None"
    if "\<not> steps_basis a \<and> \<not> use_tpu m"
    using f that by (simp add: single_iteration_train_steps_def)
  have t: "priv_single_iteration_train_epochs m = Some (arg_epochs_between_evals a) \<and>
      single_iteration_train_steps num_examples m
        = bind (epochs_to_steps num_examples m (arg_epochs_between_evals a) TRAIN)
            (\<lambda>steps. Inr (Some steps))"
    if "\<not> steps_basis a \<and> use_tpu m"
    using f that by (simp add: single_iteration_train_steps_def)
  from s e t show ?thesis by blast
qed

theorem single_iteration_train_steps_cases_witness:
  "single_iteration_train_steps (const_table 100000)
     \<lparr> train_eval_iterations = 3,
       priv_single_iteration_train_steps = Some 300,
       priv_single_iteration_train_epochs = None,
       max_length = 64, batch_size = 2048, use_tpu = True, num_tpu_shards = 8 \<rparr>
     = Inr (Some 300)
   \<and> single_iteration_train_steps (const_table 100000)
     \<lparr> train_eval_iterations = 5,
       priv_single_iteration_train_steps = None,
       priv_single_iteration_train_epochs = Some 2,
       max_length = 64, batch_size = 2048, use_tpu = False, num_tpu_shards = 8 \<rparr>
     = Inr None
   \<and> single_iteration_train_steps (const_table 100000)
     \<lparr> train_eval_iterations = 5,
       priv_single_iteration_train_steps = None,
       priv_single_iteration_train_epochs = Some 2,
       max_length = 64, batch_size = 2048, use_tpu = True, num_tpu_shards = 8 \<rparr>
     = Inr (Some 6250)"
proof -
  have c: "epochs_to_steps (const_table 100000)
     \<lparr> train_eval_iterations = 5,
       priv_single_iteration_train_steps = None,
       priv_single_iteration_train_epochs = Some 2,
       max_length = 64, batch_size = 2048, use_tpu = True, num_tpu_shards = 8 \<rparr> 2 TRAIN
     = Inr 6250"
    by (simp add: epochs_to_steps_def floordiv_def const_table_def)
  show ?thesis
    using single_iteration_train_steps_cases [OF sample_init, of "const_table 100000"]
      single_iteration_train_steps_cases [OF sample_epochs_init, of "const_table 100000"]
      single_iteration_train_steps_cases [OF sample_epochs_tpu_init, of "const_table 100000"]
      sample_steps_basis
    by (simp add: sample_epochs_basis c)
qed

subsection \<open>The progress label\<close>

lemma digit_char_not_tilde: "d < 10 \<Longrightarrow> digit_char d \<noteq> CHR ''~''"
proof -
  assume "d < 10"
  then have "digit_char d \<in> set ''0123456789''"
    unfolding digit_char_def by (intro nth_mem) simp
  then show ?thesis by auto
qed

lemma str_nat_not_Nil: "str_nat n \<noteq> []"
  by (subst str_nat.simps) simp

lemma tilde_notin_str_nat: "CHR ''~'' \<notin> set (str_nat n)"
proof (induction n rule: str_nat.induct)
  case (1 n)
  show ?case
  proof (cases "n < 10")
    case True
    then show ?thesis
      using digit_char_not_tilde [of n] by (subst str_nat.simps) auto
  next
    case False
    have "n mod 10 < 10" by simp
    from digit_char_not_tilde [OF this] 1 False show ?thesis
      by (subst str_nat.simps) auto
  qed
qed

lemma str_int_hd: "str_int i \<noteq> [] \<and> hd (str_int i) \<noteq> CHR ''~''"
proof (cases "i < 0")
  case True
  then show ?thesis by (simp add: str_int_def)
next
  case False
  have "hd (str_nat (nat i)) \<in> set (str_nat (nat i))"
    by (simp add: str_nat_not_Nil)
  with tilde_notin_str_nat [of "nat i"] have "hd (str_nat (nat i)) \<noteq> CHR ''~''"
    by metis
  with False show ?thesis
    by (simp add: str_int_def str_nat_not_Nil)
qed

lemma steps_label_not_epochs_label: "x @ '' steps.'' \<noteq> y @ '' epochs.''"
proof
  assume "x @ '' steps.'' = y @ '' epochs.''"
  then have "rev (x @ '' steps.'') = rev (y @ '' epochs.'')" by simp
  then show False by simp
qed

lemma number_label_not_tilde_label: "str_int i @ s \<noteq> ''~'' @ t"
  using str_int_hd [of i] by (cases "str_int i") auto

text \<open>
  Claim C7, as stated, fails: the sample arguments in the epochs basis with a batch size
  of 0 construct a manager on a TPU, and on it the property \<open>train_increment_str\<close> returns
  none of the three strings: the conversion of the epochs to steps raises
  ZeroDivisionError at line 123.
\<close>

theorem train_increment_str_cases_counterexample:
  "init (sample_args \<lparr> arg_train_steps := None, arg_batch_size := 0 \<rparr>) =
     Inr \<lparr> train_eval_iterations = 5,
           priv_single_iteration_train_steps = None,
           priv_single_iteration_train_epochs = Some 2,
           max_length = 64, batch_size = 0, use_tpu = True, num_tpu_shards = 8 \<rparr>
   \<and> train_increment_str (const_table 100000)
       \<lparr> train_eval_iterations = 5,
         priv_single_iteration_train_steps = None,
         priv_single_iteration_train_epochs = Some 2,
         max_length = 64, batch_size = 0, use_tpu = True, num_tpu_shards = 8 \<rparr>
       = Inl ZeroDivisionError"
  by (simp add: init_def sample_args_def floordiv_def pymod_def or_default_def
        train_increment_str_def single_iteration_train_steps_def epochs_to_steps_def)

text \<open>
  Claim C7, amended. After a successful construction the property \<open>train_increment_str\<close>
  is, in the steps basis, the stored step count followed by \<open>" steps."\<close>; in the epochs
  basis without a TPU, the stored epoch count followed by \<open>" epochs."\<close>; and in the epochs
  basis on a TPU with a batch size that is not zero, \<open>"~N epochs. (M steps)"\<close> with the
  stored epoch count for N and, for M, the number of steps that \<open>epochs_to_steps\<close> returns
  for that count in the mode TRAIN. In the epochs basis on a TPU with a batch size of zero
  it raises ZeroDivisionError. The counts are printed in decimal. No string of one of the
  three forms is a string of another.
\<close>

theorem train_increment_str_cases:
  "(\<forall>m. init a = Inr m \<longrightarrow>
      (steps_basis a \<longrightarrow>
         train_increment_str num_examples m
           = Inr (str_int (arg_steps_between_evals a) @ '' steps.'')) \<and>
      (\<not> steps_basis a \<and> \<not> use_tpu m \<longrightarrow>
         train_increment_str num_examples m
           = Inr (str_int (arg_epochs_between_evals a) @ '' epochs.'')) \<and>
      (\<not> steps_basis a \<and> use_tpu m \<and> batch_size m \<noteq> 0 \<longrightarrow>
         (\<exists>steps.
            epochs_to_steps num_examples m (arg_epochs_between_evals a) TRAIN = Inr steps \<and>
            train_increment_str num_examples m
              = Inr (''~'' @ str_int (arg_epochs_between_evals a) @ '' epochs. (''
                       @ str_int steps @ '' steps)''))) \<and>
      (\<not> steps_basis a \<and> use_tpu m \<and> batch_size m = 0 \<longrightarrow>
         train_increment_str num_examples m = Inl ZeroDivisionError))
   \<and> str_int n1 @ '' steps.'' \<noteq> str_int n2 @ '' epochs.''
   \<and> str_int n1 @ '' steps.'' \<noteq> ''~'' @ str_int n3 @ '' epochs. ('' @ str_int n4 @ '' steps)''
   \<and> str_int n2 @ '' epochs.'' \<noteq> ''~'' @ str_int n3 @ '' epochs. ('' @ str_int n4 @ '' steps)''"
proof -
  have s: "train_increment_str num_examples m
           = Inr (str_int (arg_steps_between_evals a) @ '' steps.'')"
    if "init a = Inr m" "steps_basis a" for m
    using init_Inr_D(2,4,5) [OF that(1)] that(2)
    by (simp add: train_increment_str_def cadence_def str_opt_def)
  have e: "train_increment_str num_examples m
           = Inr (str_int (arg_epochs_between_evals a) @ '' epochs.'')"
    if "init a = Inr m" "\<not> steps_basis a \<and> \<not> use_tpu m" for m
    using init_Inr_D(2,4,5) [OF that(1)] that(2)
    by (simp add: train_increment_str_def str_opt_def)
  have t: "\<exists>steps.
            epochs_to_steps num_examples m (arg_epochs_between_evals a) TRAIN = Inr steps \<and>
            train_increment_str num_examples m
              = Inr (''~'' @ str_int (arg_epochs_between_evals a) @ '' epochs. (''
                       @ str_int steps @ '' steps)'')"
    if "init a = Inr m" "\<not> steps_basis a \<and> use_tpu m \<and> batch_size m \<noteq> 0" for m
    using init_Inr_D(2,4,5) [OF that(1)] that(2)
    by (simp add: train_increment_str_def single_iteration_train_steps_def str_opt_def
          epochs_to_steps_def floordiv_def)
  have z: "train_increment_str num_examples m = Inl ZeroDivisionError"
    if "init a = Inr m" "\<not> steps_basis a \<and> use_tpu m \<and> batch_size m = 0" for m
    using init_Inr_D(2,4,5) [OF that(1)] that(2)
    by (simp add: train_increment_str_def single_iteration_train_steps_def
          epochs_to_steps_def floordiv_def)
  from s e t z steps_label_not_epochs_label [of "str_int n1" "str_int n2"]
    number_label_not_tilde_label [of n1 "'' steps.''"]
    number_label_not_tilde_label [of n2 "'' epochs.''"]
  show ?thesis by blast
qed

lemma str_int_samples:
  "str_int 300 = ''300''" "str_int 2 = ''2''" "str_int 6250 = ''6250''"
  by (simp_all add: str_int_def str_nat.simps digit_char_def)

theorem train_increment_str_cases_witness:
  "train_increment_str (const_table 100000)
     \<lparr> train_eval_iterations = 3,
       priv_single_iteration_train_steps = Some 300,
       priv_single_iteration_train_epochs = None,
       max_length = 64, batch_size = 2048, use_tpu = True, num_tpu_shards = 8 \<rparr>
     = Inr ''300 steps.''
   \<and> train_increment_str (const_table 100000)
     \<lparr> train_eval_iterations = 5,
       priv_single_iteration_train_steps = None,
       priv_single_iteration_train_epochs = Some 2,
       max_length = 64, batch_size = 2048, use_tpu = False, num_tpu_shards = 8 \<rparr>
     = Inr ''2 epochs.''
   \<and> train_increment_str (const_table 100000)
     \<lparr> train_eval_iterations = 5,
       priv_single_iteration_train_steps = None,
       priv_single_iteration_train_epochs = Some 2,
       max_length = 64, batch_size = 2048, use_tpu = True, num_tpu_shards = 8 \<rparr>
     = Inr ''~2 epochs. (6250 steps)''"
proof -
  have c: "epochs_to_steps (const_table 100000)
     \<lparr> train_eval_iterations = 5,
       priv_single_iteration_train_steps = None,
       priv_single_iteration_train_epochs = Some 2,
       max_length = 64, batch_size = 2048, use_tpu = True, num_tpu_shards = 8 \<rparr> 2 TRAIN
     = Inr 6250"
    by (simp add: epochs_to_steps_def floordiv_def const_table_def)
  have a: "arg_steps_between_evals sample_args = 300"
    by (simp add: sample_args_def)
  show ?thesis
    using train_increment_str_cases [of sample_args "const_table 100000"]
      train_increment_str_cases [of "sample_args \<lparr> arg_train_steps := None, arg_use_tpu := False \<rparr>"
        "const_table 100000"]
      train_increment_str_cases [of "sample_args \<lparr> arg_train_steps := None \<rparr>"
        "const_table 100000"]
      sample_steps_basis
    by (simp add: sample_init sample_epochs_init sample_epochs_tpu_init sample_epochs_basis
          a c str_int_samples)
qed

subsection \<open>More epochs, more steps\<close>

text \<open>
  Claim C9, as stated, fails: the sample arguments with sequences of \<open>-64\<close> tokens
  construct a manager on a TPU with a positive batch size for which one epoch converts to
  \<open>-3125\<close> steps and two epochs to \<open>-6250\<close> steps, fewer.
\<close>

theorem epochs_to_steps_mono_counterexample:
  "init (sample_args \<lparr> arg_max_length := - 64 \<rparr>) =
     Inr \<lparr> train_eval_iterations = 3,
           priv_single_iteration_train_steps = Some 300,
           priv_single_iteration_train_epochs = None,
           max_length = - 64, batch_size = 2048, use_tpu = True, num_tpu_shards = 8 \<rparr>
   \<and> epochs_to_steps (const_table 100000)
       \<lparr> train_eval_iterations = 3,
         priv_single_iteration_train_steps = Some 300,
         priv_single_iteration_train_epochs = None,
         max_length = - 64, batch_size = 2048, use_tpu = True, num_tpu_shards = 8 \<rparr> 1 TRAIN
       = Inr (- 3125)
   \<and> epochs_to_steps (const_table 100000)
       \<lparr> train_eval_iterations = 3,
         priv_single_iteration_train_steps = Some 300,
         priv_single_iteration_train_epochs = None,
         max_length = - 64, batch_size = 2048, use_tpu = True, num_tpu_shards = 8 \<rparr> 2 TRAIN
       = Inr (- 6250)
   \<and> (1::int) \<le> 2 \<and> \<not> (- 3125 :: int) \<le> - 6250"
  by (simp add: init_def sample_args_def floordiv_def pymod_def epochs_to_steps_def
        const_table_def)

text \<open>
  Claim C9, amended. On a manager that uses a TPU, with a positive batch size and a
  sequence length that is not negative, \<open>epochs_to_steps\<close> returns for every number of
  epochs, and for a fixed mode and table of example counts it is monotone: no more
  epochs, no more steps. With 100000 examples, sequences of 64 tokens and batches of 2048
  tokens one epoch is 3125 steps.
\<close>

theorem epochs_to_steps_mono:
  assumes "use_tpu self" and "0 < batch_size self" and "0 \<le> max_length self"
    and "num_epochs1 \<le> num_epochs2"
  shows "\<exists>steps1 steps2.
           epochs_to_steps num_examples self num_epochs1 md = Inr steps1 \<and>
           epochs_to_steps num_examples self num_epochs2 md = Inr steps2 \<and>
           steps1 \<le> steps2"
proof -
  have "0 \<le> int (num_examples md) * max_length self"
    using assms(3) by simp
  then have "int (num_examples md) * max_length self * num_epochs1
      \<le> int (num_examples md) * max_length self * num_epochs2"
    using assms(4) by (rule mult_left_mono [rotated])
  then have "int (num_examples md) * max_length self * num_epochs1 div batch_size self
      \<le> int (num_examples md) * max_length self * num_epochs2 div batch_size self"
    using assms(2) by (rule zdiv_mono1)
  with assms(1,2) show ?thesis
    by (simp add: epochs_to_steps_def floordiv_def)
qed

theorem epochs_to_steps_mono_witness:
  "epochs_to_steps (const_table 100000)
       \<lparr> train_eval_iterations = 3,
         priv_single_iteration_train_steps = Some 300,
         priv_single_iteration_train_epochs = None,
         max_length = 64, batch_size = 2048, use_tpu = True, num_tpu_shards = 8 \<rparr> 1 TRAIN
       = Inr 3125
   \<and> epochs_to_steps (const_table 100000)
       \<lparr> train_eval_iterations = 3,
         priv_single_iteration_train_steps = Some 300,
         priv_single_iteration_train_epochs = None,
         max_length = 64, batch_size = 2048, use_tpu = True, num_tpu_shards = 8 \<rparr> 2 TRAIN
       = Inr 6250
   \<and> (3125::int) \<le> 6250"
  using epochs_to_steps_mono [of
      "\<lparr> train_eval_iterations = 3,
         priv_single_iteration_train_steps = Some 300,
         priv_single_iteration_train_epochs = None,
         max_length = 64, batch_size = 2048, use_tpu = True, num_tpu_shards = 8 \<rparr>"
      1 2 "const_table 100000" TRAIN]
  by (simp add: epochs_to_steps_def floordiv_def const_table_def)


subsection \<open>True division below \<open>2 ^ 53\<close>\<close>










subsection \<open>The number of repetitions of the dataset\<close>











end
